theory Spec2Isabelle
  imports Main
begin

section \<open>Strings\<close>

text \<open>
  A Python \<^verbatim>\<open>str\<close> is a sequence of code points. The model uses \<^typ>\<open>string\<close>, whose
  characters are the code points 0 to 255; on these \<^verbatim>\<open>str.lower()\<close> maps one character to
  one character: \<^verbatim>\<open>A\<close> to \<^verbatim>\<open>Z\<close> (65 to 90) and the Latin-1 capitals (192 to 222 without the
  multiplication sign 215) move up by 32, every other character stays.
\<close>

definition lower_char :: "char \<Rightarrow> char" where
  "lower_char c =
     (let n = (of_char c :: nat)
      in if (65 \<le> n \<and> n \<le> 90) \<or> (192 \<le> n \<and> n \<le> 222 \<and> n \<noteq> 215)
         then char_of (n + 32) else c)"

definition lower :: "string \<Rightarrow> string" where
  "lower s = map lower_char s"

text \<open>\<^verbatim>\<open>s.startswith(k)\<close>, used to write out the operator \<^verbatim>\<open>k in s\<close> on strings.\<close>

fun startswith :: "string \<Rightarrow> string \<Rightarrow> bool" where
  "startswith s [] = True"
| "startswith [] (k # ks) = False"
| "startswith (c # cs) (k # ks) = (c = k \<and> startswith cs ks)"

text \<open>\<^verbatim>\<open>k in s\<close>: the string \<open>k\<close> occurs in \<open>s\<close> as a contiguous block.\<close>

fun str_contains :: "string \<Rightarrow> string \<Rightarrow> bool" where
  "str_contains k [] = (k = [])"
| "str_contains k (c # cs) = (startswith (c # cs) k \<or> str_contains k cs)"

text \<open>\<^verbatim>\<open>str(n)\<close> for an integer: decimal digits, with a minus sign below zero.\<close>

definition digit_char :: "nat \<Rightarrow> char" where
  "digit_char d = char_of (48 + d)"

function str_nat :: "nat \<Rightarrow> string" where
  "str_nat n = (if n < 10 then [digit_char n] else str_nat (n div 10) @ [digit_char (n mod 10)])"
  by pat_completeness auto
termination
  by (relation "measure id") auto

declare str_nat.simps [simp del]

definition str_int :: "int \<Rightarrow> string" where
  "str_int i = (if i < 0 then CHR ''-'' # str_nat (nat (- i)) else str_nat (nat i))"

text \<open>\<^verbatim>\<open>str(x)\<close> of an optional string, as an f-string renders it: \<^verbatim>\<open>None\<close> prints as \<^verbatim>\<open>None\<close>.\<close>

definition str_opt :: "string option \<Rightarrow> string" where
  "str_opt x = (case x of None \<Rightarrow> ''None'' | Some s \<Rightarrow> s)"

section \<open>Exceptions, the network and the file system\<close>

text \<open>
  An exception is kept as the text \<^verbatim>\<open>str(e)\<close> gives; the endpoints catch \<^verbatim>\<open>Exception\<close> and
  use nothing else of it.
\<close>

datatype exn = Exception (message: string)

record chat_message =
  role :: string
  content :: string

text \<open>
  The arguments of \<^verbatim>\<open>requests.post(url, headers=headers, json=payload)\<close>. The payload's
  temperature is the float 0.5; it is kept as the text of its literal.
\<close>

record http_request =
  url :: string
  headers :: "(string \<times> string) list"
  payload_model :: string
  payload_messages :: "chat_message list"
  payload_temperature :: string

text \<open>
  What \<^verbatim>\<open>query_groq\<close> reads of a response: \<^verbatim>\<open>status_code\<close>, \<^verbatim>\<open>text\<close> (here \<open>body_text\<close>)
  and the value of \<^verbatim>\<open>response.json()['choices'][0]['message']['content']\<close>, which is an
  exception when the body is not JSON of that shape.
\<close>

record http_response =
  status_code :: int
  body_text :: string
  json_content :: "exn + string"

text \<open>
  The surroundings of the program, fixed during a request: the environment variable
  \<^verbatim>\<open>GROQ_API_KEY\<close> (\<open>None\<close> when unset), the remote service (its answer to the \<open>n\<close>-th
  request the process sends, which may be an exception of \<^verbatim>\<open>requests\<close>), the loaded Whisper
  model (the \<^verbatim>\<open>text\<close> entry of its transcription of the file at a path, or the exception it
  raises) and the operating system's verdict on the three file operations of an endpoint:
  \<^verbatim>\<open>NamedTemporaryFile(delete=False, suffix=".mp4")\<close> raises or gives the name of a new empty
  file; writing the upload and closing the file raises, with some part written, or succeeds;
  \<^verbatim>\<open>Path(...).unlink(missing_ok=True)\<close> raises or succeeds.
\<close>

record env =
  GROQ_API_KEY :: "string option"
  network :: "nat \<Rightarrow> http_request \<Rightarrow> exn + http_response"
  whisper_transcribe :: "(string \<rightharpoonup> string) \<Rightarrow> string \<Rightarrow> exn + string"
  mkstemp :: "(string \<rightharpoonup> string) \<Rightarrow> exn + string"
  write_fault :: "(string \<rightharpoonup> string) \<Rightarrow> string \<Rightarrow> string \<Rightarrow> (exn \<times> string) option"
  unlink_fault :: "(string \<rightharpoonup> string) \<Rightarrow> string \<Rightarrow> exn option"

text \<open>The state a request changes: the requests sent so far and the files on disk.\<close>

record world =
  sent :: "http_request list"
  files :: "string \<rightharpoonup> string"

definition NamedTemporaryFile :: "env \<Rightarrow> world \<Rightarrow> (exn + string) \<times> world" where
  "NamedTemporaryFile e w =
     (case mkstemp e (files w) of
        Inl ex \<Rightarrow> (Inl ex, w)
      | Inr name \<Rightarrow> (Inr name, w\<lparr>files := (files w)(name \<mapsto> [])\<rparr>))"

text \<open>\<^verbatim>\<open>temp.write(await video.read())\<close> and the close at the end of the \<^verbatim>\<open>with\<close> block.\<close>

definition temp_write :: "env \<Rightarrow> string \<Rightarrow> string \<Rightarrow> world \<Rightarrow> (exn + unit) \<times> world" where
  "temp_write e name data w =
     (case write_fault e (files w) name data of
        Some (ex, part) \<Rightarrow> (Inl ex, w\<lparr>files := (files w)(name \<mapsto> part)\<rparr>)
      | None \<Rightarrow> (Inr (), w\<lparr>files := (files w)(name \<mapsto> data)\<rparr>))"

definition unlink :: "env \<Rightarrow> string \<Rightarrow> world \<Rightarrow> (exn + unit) \<times> world" where
  "unlink e path w =
     (case unlink_fault e (files w) path of
        Some ex \<Rightarrow> (Inl ex, w)
      | None \<Rightarrow> (Inr (), w\<lparr>files := (files w)(path := None)\<rparr>))"

definition requests_post :: "env \<Rightarrow> http_request \<Rightarrow> world \<Rightarrow> (exn + http_response) \<times> world" where
  "requests_post e req w = (network e (length (sent w)) req, w\<lparr>sent := sent w @ [req]\<rparr>)"

section \<open>The program\<close>

definition transcribe_audio :: "env \<Rightarrow> string \<Rightarrow> world \<Rightarrow> exn + string" where
  "transcribe_audio e video_path w = whisper_transcribe e (files w) video_path"

definition groq_request :: "env \<Rightarrow> string \<Rightarrow> string \<Rightarrow> http_request" where
  "groq_request e prompt model =
     \<lparr>url = ''https://api.groq.com/openai/v1/chat/completions'',
      headers = [(''Authorization'', ''Bearer '' @ str_opt (GROQ_API_KEY e)),
                 (''Content-Type'', ''application/json'')],
      payload_model = model,
      payload_messages =
        [\<lparr>role = ''system'',
          content = ''You are a helpful assistant for summarizing video content.''\<rparr>,
         \<lparr>role = ''user'', content = prompt\<rparr>],
      payload_temperature = ''0.5''\<rparr>"

definition query_groq :: "env \<Rightarrow> string \<Rightarrow> string \<Rightarrow> world \<Rightarrow> (exn + string) \<times> world" where
  "query_groq e prompt model w =
     (case requests_post e (groq_request e prompt model) w of
        (Inl ex, w') \<Rightarrow> (Inl ex, w')
      | (Inr response, w') \<Rightarrow>
          if status_code response = 200 then (json_content response, w')
          else (Inr (''Groq API Error: '' @ str_int (status_code response) @ '' - ''
                       @ body_text response), w'))"

definition web_search :: "string \<Rightarrow> string" where
  "web_search query = ''https://www.duckduckgo.com/?q='' @ query"

definition fact_checking :: "string \<Rightarrow> string" where
  "fact_checking query = ''https://www.duckduckgo.com/?q='' @ query"

record VideoAgent =
  video_path :: string
  user_query :: string
  transcript :: string

definition VideoAgent_init :: "env \<Rightarrow> string \<Rightarrow> string \<Rightarrow> world \<Rightarrow> exn + VideoAgent" where
  "VideoAgent_init e path q w =
     (case transcribe_audio e path w of
        Inl ex \<Rightarrow> Inl ex
      | Inr t \<Rightarrow> Inr \<lparr>video_path = path, user_query = q, transcript = t\<rparr>)"

definition summarize_prompt :: "VideoAgent \<Rightarrow> string" where
  "summarize_prompt a =
     ''Here is the transcript of a video:'' @ [CHR 0x0A, CHR 0x0A] @ transcript a
       @ [CHR 0x0A, CHR 0x0A] @ ''Now respond to the following request:'' @ [CHR 0x0A]
       @ user_query a"

definition summarize_video :: "env \<Rightarrow> VideoAgent \<Rightarrow> world \<Rightarrow> (exn + string) \<times> world" where
  "summarize_video e a w = query_groq e (summarize_prompt a) ''llama3-8b-8192'' w"

definition search_web :: "VideoAgent \<Rightarrow> string" where
  "search_web a = web_search (user_query a)"

definition fact_check :: "VideoAgent \<Rightarrow> string" where
  "fact_check a = fact_checking (user_query a)"

text \<open>The dictionary \<^verbatim>\<open>{"type": ..., "result": ...}\<close> that \<^verbatim>\<open>process_query\<close> returns.\<close>

record analysis =
  type :: string
  result :: string

text \<open>\<^verbatim>\<open>any(keyword in s for keyword in keywords)\<close>\<close>

definition any_keyword_in :: "string list \<Rightarrow> string \<Rightarrow> bool" where
  "any_keyword_in keywords s = list_ex (\<lambda>keyword. str_contains keyword s) keywords"

definition process_query :: "env \<Rightarrow> VideoAgent \<Rightarrow> world \<Rightarrow> (exn + analysis) \<times> world" where
  "process_query e a w =
     (let user_query_lower = lower (user_query a)
      in if any_keyword_in [''summarize'', ''key points'', ''summary'', ''main ideas'']
              user_query_lower
         then (case summarize_video e a w of
                 (Inl ex, w') \<Rightarrow> (Inl ex, w')
               | (Inr r, w') \<Rightarrow> (Inr \<lparr>type = ''summary'', result = r\<rparr>, w'))
         else if any_keyword_in [''search'', ''find more'', ''look up'', ''additional info'']
              user_query_lower
         then (Inr \<lparr>type = ''web_search'', result = search_web a\<rparr>, w)
         else if any_keyword_in [''fact-check'', ''verify'', ''is this true'', ''check'']
              user_query_lower
         then (Inr \<lparr>type = ''fact_check'', result = fact_check a\<rparr>, w)
         else (Inr \<lparr>type = ''unknown'',
                    result = ''Sorry, I couldn'' @ [CHR 0x27] @ ''t understand the query.''\<rparr>, w))"

section \<open>The endpoints\<close>

datatype response_body =
  TranscriptBody string
| AnalysisBody analysis
| ErrorBody string

record endpoint_response =
  status :: int
  body :: response_body

text \<open>
  Each endpoint is a \<^verbatim>\<open>try\<close> block and an \<^verbatim>\<open>except Exception\<close> clause. The block is a function
  of its own, with the exception it raises as \<open>Inl\<close>; the endpoint turns that into the
  response with status 500.
\<close>

definition transcribe_video_try :: "env \<Rightarrow> string \<Rightarrow> world \<Rightarrow> (exn + string) \<times> world" where
  "transcribe_video_try e video w =
     (case NamedTemporaryFile e w of
        (Inl ex, w0) \<Rightarrow> (Inl ex, w0)
      | (Inr temp_path, w0) \<Rightarrow>
          (case temp_write e temp_path video w0 of
             (Inl ex, w1) \<Rightarrow> (Inl ex, w1)
           | (Inr _, w1) \<Rightarrow>
               (case transcribe_audio e temp_path w1 of
                  Inl ex \<Rightarrow> (Inl ex, w1)
                | Inr t \<Rightarrow>
                    (case unlink e temp_path w1 of
                       (Inl ex, w2) \<Rightarrow> (Inl ex, w2)
                     | (Inr _, w2) \<Rightarrow> (Inr t, w2)))))"

definition transcribe_video :: "env \<Rightarrow> string \<Rightarrow> world \<Rightarrow> endpoint_response \<times> world" where
  "transcribe_video e video w =
     (case transcribe_video_try e video w of
        (Inl ex, w') \<Rightarrow> (\<lparr>status = 500, body = ErrorBody (message ex)\<rparr>, w')
      | (Inr t, w') \<Rightarrow> (\<lparr>status = 200, body = TranscriptBody t\<rparr>, w'))"

definition analyze_video_try :: "env \<Rightarrow> string \<Rightarrow> string \<Rightarrow> world \<Rightarrow> (exn + analysis) \<times> world" where
  "analyze_video_try e video q w =
     (case NamedTemporaryFile e w of
        (Inl ex, w0) \<Rightarrow> (Inl ex, w0)
      | (Inr temp_path, w0) \<Rightarrow>
          (case temp_write e temp_path video w0 of
             (Inl ex, w1) \<Rightarrow> (Inl ex, w1)
           | (Inr _, w1) \<Rightarrow>
               (case VideoAgent_init e temp_path q w1 of
                  Inl ex \<Rightarrow> (Inl ex, w1)
                | Inr agent \<Rightarrow>
                    (case process_query e agent w1 of
                       (Inl ex, w2) \<Rightarrow> (Inl ex, w2)
                     | (Inr r, w2) \<Rightarrow>
                         (case unlink e temp_path w2 of
                            (Inl ex, w3) \<Rightarrow> (Inl ex, w3)
                          | (Inr _, w3) \<Rightarrow> (Inr r, w3))))))"

definition analyze_video :: "env \<Rightarrow> string \<Rightarrow> string \<Rightarrow> world \<Rightarrow> endpoint_response \<times> world" where
  "analyze_video e video q w =
     (case analyze_video_try e video q w of
        (Inl ex, w') \<Rightarrow> (\<lparr>status = 500, body = ErrorBody (message ex)\<rparr>, w')
      | (Inr r, w') \<Rightarrow> (\<lparr>status = 200, body = AnalysisBody r\<rparr>, w'))"

section \<open>The routing rule as the specification words it\<close>

text \<open>
  The four intents, the keyword set of each, and the choice among them: a keyword occurs in a
  query when some block of the query equals it up to the case of letters, an intent matches
  when one of its keywords occurs, and the first matching intent in the order Summary,
  WebSearch, FactCheck is chosen, Unknown when none matches.
\<close>

datatype intent = Summary | WebSearch | FactCheck | Unknown

primrec keywords_spec :: "intent \<Rightarrow> string set" where
  "keywords_spec Summary = {''summarize'', ''key points'', ''summary'', ''main ideas''}"
| "keywords_spec WebSearch = {''search'', ''find more'', ''look up'', ''additional info''}"
| "keywords_spec FactCheck = {''fact-check'', ''verify'', ''is this true'', ''check''}"
| "keywords_spec Unknown = {}"

definition occurs_ignoring_case :: "string \<Rightarrow> string \<Rightarrow> bool" where
  "occurs_ignoring_case k q \<longleftrightarrow> (\<exists>p s t. q = p @ s @ t \<and> lower s = lower k)"

definition matches_spec :: "intent \<Rightarrow> string \<Rightarrow> bool" where
  "matches_spec i q \<longleftrightarrow> (\<exists>k \<in> keywords_spec i. occurs_ignoring_case k q)"

definition intent_spec :: "string \<Rightarrow> intent" where
  "intent_spec q =
     (if matches_spec Summary q then Summary
      else if matches_spec WebSearch q then WebSearch
      else if matches_spec FactCheck q then FactCheck
      else Unknown)"

text \<open>The number a string of decimal digits denotes, to check \<open>str_nat\<close> against.\<close>

definition decimal_value :: "string \<Rightarrow> nat" where
  "decimal_value s = foldl (\<lambda>v c. 10 * v + (of_char c - 48)) 0 s"

section \<open>Sample surroundings\<close>

text \<open>
  Concrete collaborators for the instances below: a transcriber that fails on a missing or an
  empty file, a completion service that answers, one that refuses the first request with
  status 429 and would answer the next, one that cannot be reached, one that answers a
  well-formed chat request with a text made from the user message and refuses any other
  request with status 400, and file operations that succeed.
\<close>

definition demo_whisper :: "(string \<rightharpoonup> string) \<Rightarrow> string \<Rightarrow> exn + string" where
  "demo_whisper fs p =
     (case fs p of
        None \<Rightarrow> Inl (Exception ''No such file'')
      | Some v \<Rightarrow> if v = [] then Inl (Exception ''Failed to load audio'')
                  else Inr (''heard: '' @ v))"

definition net_ok :: "nat \<Rightarrow> http_request \<Rightarrow> exn + http_response" where
  "net_ok n req =
     Inr \<lparr>status_code = 200, body_text = ''{}'', json_content = Inr ''The video is about cats.''\<rparr>"

definition net_429_then_ok :: "nat \<Rightarrow> http_request \<Rightarrow> exn + http_response" where
  "net_429_then_ok n req =
     (if n = 0
      then Inr \<lparr>status_code = 429, body_text = ''rate limit exceeded'',
                json_content = Inl (Exception ''choices'')\<rparr>
      else net_ok n req)"

definition net_echo :: "nat \<Rightarrow> http_request \<Rightarrow> exn + http_response" where
  "net_echo n req =
     (case payload_messages req of
        [s, u] \<Rightarrow>
          if url req = ''https://api.groq.com/openai/v1/chat/completions''
             \<and> role s = ''system'' \<and> role u = ''user''
          then Inr \<lparr>status_code = 200, body_text = ''{}'',
                    json_content = Inr (''Reply to: '' @ content u)\<rparr>
          else Inr \<lparr>status_code = 400, body_text = ''bad request'',
                    json_content = Inl (Exception ''choices'')\<rparr>
      | _ \<Rightarrow> Inr \<lparr>status_code = 400, body_text = ''bad request'',
                  json_content = Inl (Exception ''choices'')\<rparr>)"

definition net_down :: "nat \<Rightarrow> http_request \<Rightarrow> exn + http_response" where
  "net_down n req = Inl (Exception ''Connection refused'')"

definition demo_env :: "(nat \<Rightarrow> http_request \<Rightarrow> exn + http_response) \<Rightarrow> env" where
  "demo_env net =
     \<lparr>GROQ_API_KEY = Some ''gsk_test'', network = net, whisper_transcribe = demo_whisper,
      mkstemp = (\<lambda>fs. Inr ''/tmp/tmpq0x1.mp4''), write_fault = (\<lambda>fs name data. None),
      unlink_fault = (\<lambda>fs path. None)\<rparr>"

definition world0 :: world where
  "world0 = \<lparr>sent = [], files = Map.empty\<rparr>"

definition demo_agent :: "string \<Rightarrow> string \<Rightarrow> VideoAgent" where
  "demo_agent t q = \<lparr>video_path = ''/tmp/v.mp4'', user_query = q, transcript = t\<rparr>"

section \<open>Substring search and lower-casing\<close>

lemma startswith_iff: "startswith s k \<longleftrightarrow> (\<exists>t. s = k @ t)"
  by (induction s k rule: startswith.induct) auto

lemma str_contains_iff: "str_contains k s \<longleftrightarrow> (\<exists>p t. s = p @ k @ t)"
proof (induction s)
  case Nil
  then show ?case by auto
next
  case (Cons c cs)
  show ?case
  proof
    assume "str_contains k (c # cs)"
    then consider "startswith (c # cs) k" | "str_contains k cs" by auto
    then show "\<exists>p t. c # cs = p @ k @ t"
    proof cases
      case 1
      then obtain t where "c # cs = k @ t" by (auto simp: startswith_iff)
      then have "c # cs = [] @ k @ t" by simp
      then show ?thesis by blast
    next
      case 2
      with Cons obtain p t where "cs = p @ k @ t" by auto
      then have "c # cs = (c # p) @ k @ t" by simp
      then show ?thesis by blast
    qed
  next
    assume "\<exists>p t. c # cs = p @ k @ t"
    then obtain p t where e: "c # cs = p @ k @ t" by blast
    show "str_contains k (c # cs)"
    proof (cases p)
      case Nil
      with e have "startswith (c # cs) k" by (auto simp: startswith_iff)
      then show ?thesis by simp
    next
      case (Cons d ds)
      with e have "cs = ds @ k @ t" by simp
      with Cons.IH have "str_contains k cs" by blast
      then show ?thesis by simp
    qed
  qed
qed

lemma lower_eq_append:
  "lower q = u @ v \<longleftrightarrow> (\<exists>s t. q = s @ t \<and> lower s = u \<and> lower t = v)"
  by (auto simp: lower_def map_eq_append_conv)

lemma str_contains_lower_iff:
  "str_contains k (lower q) \<longleftrightarrow> (\<exists>p s t. q = p @ s @ t \<and> lower s = k)"
  unfolding str_contains_iff lower_eq_append by blast

lemma occurs_ignoring_case_iff:
  "occurs_ignoring_case k q \<longleftrightarrow> str_contains (lower k) (lower q)"
  by (simp add: occurs_ignoring_case_def str_contains_lower_iff)

lemma lower_keywords:
  "lower ''summarize'' = ''summarize''" "lower ''key points'' = ''key points''"
  "lower ''summary'' = ''summary''" "lower ''main ideas'' = ''main ideas''"
  "lower ''search'' = ''search''" "lower ''find more'' = ''find more''"
  "lower ''look up'' = ''look up''" "lower ''additional info'' = ''additional info''"
  "lower ''fact-check'' = ''fact-check''" "lower ''verify'' = ''verify''"
  "lower ''is this true'' = ''is this true''" "lower ''check'' = ''check''"
  by (simp_all add: lower_def lower_char_def)

lemma matches_spec_Summary:
  "matches_spec Summary q \<longleftrightarrow>
     any_keyword_in [''summarize'', ''key points'', ''summary'', ''main ideas''] (lower q)"
  by (simp add: matches_spec_def any_keyword_in_def occurs_ignoring_case_iff lower_keywords)

lemma matches_spec_WebSearch:
  "matches_spec WebSearch q \<longleftrightarrow>
     any_keyword_in [''search'', ''find more'', ''look up'', ''additional info''] (lower q)"
  by (simp add: matches_spec_def any_keyword_in_def occurs_ignoring_case_iff lower_keywords)

lemma matches_spec_FactCheck:
  "matches_spec FactCheck q \<longleftrightarrow>
     any_keyword_in [''fact-check'', ''verify'', ''is this true'', ''check''] (lower q)"
  by (simp add: matches_spec_def any_keyword_in_def occurs_ignoring_case_iff lower_keywords)

lemmas matches_spec_code = matches_spec_Summary matches_spec_WebSearch matches_spec_FactCheck

lemmas demo_defs = demo_env_def world0_def demo_agent_def net_ok_def net_429_then_ok_def
  net_down_def net_echo_def demo_whisper_def

lemmas eval_defs = process_query_def summarize_video_def query_groq_def requests_post_def
  groq_request_def summarize_prompt_def search_web_def web_search_def fact_check_def
  fact_checking_def any_keyword_in_def Let_def str_opt_def

section \<open>Decimal text and the requests a query sends\<close>

lemma of_char_digit_char: "d < 10 \<Longrightarrow> of_char (digit_char d) = 48 + d"
  by (simp add: digit_char_def)

lemma decimal_value_str_nat: "decimal_value (str_nat n) = n"
proof (induction n rule: str_nat.induct)
  case (1 n)
  show ?case
  proof (cases "n < 10")
    case True
    then show ?thesis
      by (subst str_nat.simps) (simp add: decimal_value_def of_char_digit_char)
  next
    case False
    with 1 have "decimal_value (str_nat (n div 10)) = n div 10" by simp
    with False show ?thesis
      by (subst str_nat.simps) (simp add: decimal_value_def of_char_digit_char)
  qed
qed

lemma process_query_sent:
  "sent (snd (process_query e a w)) = sent w
   \<or> sent (snd (process_query e a w))
       = sent w @ [groq_request e (summarize_prompt a) ''llama3-8b-8192'']"
  by (simp add: process_query_def summarize_video_def query_groq_def requests_post_def Let_def
      split: sum.splits)

section \<open>Routing\<close>

text \<open>
  C1. For every agent (transcript and query), \<open>process_query\<close> takes the branch of exactly
  the intent that the specification's rule chooses for the query: keywords are sought in the
  query up to the case of letters, the intents are tried in the order Summary, WebSearch,
  FactCheck, the first one with a keyword that occurs is taken, and Unknown is taken when none
  has one.
\<close>

theorem route_by_priority:
  "process_query e a w =
     (case intent_spec (user_query a) of
        Summary \<Rightarrow>
          (case summarize_video e a w of
             (Inl ex, w') \<Rightarrow> (Inl ex, w')
           | (Inr r, w') \<Rightarrow> (Inr \<lparr>type = ''summary'', result = r\<rparr>, w'))
      | WebSearch \<Rightarrow> (Inr \<lparr>type = ''web_search'', result = search_web a\<rparr>, w)
      | FactCheck \<Rightarrow> (Inr \<lparr>type = ''fact_check'', result = fact_check a\<rparr>, w)
      | Unknown \<Rightarrow>
          (Inr \<lparr>type = ''unknown'',
                result = ''Sorry, I couldn'' @ [CHR 0x27] @ ''t understand the query.''\<rparr>, w))"
  by (simp add: process_query_def intent_spec_def matches_spec_code Let_def)

theorem route_by_priority_witness:
  "process_query (demo_env net_ok) (demo_agent ''t'' ''Verify it, then SEARCH'') world0
     = (Inr \<lparr>type = ''web_search'',
              result = ''https://www.duckduckgo.com/?q=Verify it, then SEARCH''\<rparr>, world0)
   \<and> intent_spec ''Verify it, then SEARCH'' = WebSearch"
proof -
  let ?a = "demo_agent ''t'' ''Verify it, then SEARCH''"
  have lw: "lower ''Verify it, then SEARCH'' = ''verify it, then search''"
    by code_simp
  have ev: "process_query (demo_env net_ok) ?a world0
     = (Inr \<lparr>type = ''web_search'',
              result = ''https://www.duckduckgo.com/?q=Verify it, then SEARCH''\<rparr>, world0)"
    by (simp add: eval_defs demo_defs lw)
  have q: "user_query ?a = ''Verify it, then SEARCH''"
    by (simp add: demo_agent_def)
  have "intent_spec ''Verify it, then SEARCH'' = WebSearch"
    using route_by_priority [of "demo_env net_ok" ?a world0] ev unfolding q
    by (cases "intent_spec ''Verify it, then SEARCH''")
       (auto split: prod.splits sum.splits)
  with ev show ?thesis by simp
qed

text \<open>
  C2. When the lower-cased query contains \<open>summary\<close>, \<open>process_query\<close> takes the Summary
  branch, whatever other keywords the query holds: its outcome is the outcome of
  \<open>summarize_video\<close>, and every analysis it returns has type \<open>summary\<close>.
\<close>

theorem summary_keyword_wins:
  assumes "lower (user_query a) = p @ ''summary'' @ s"
  shows "process_query e a w =
           (case summarize_video e a w of
              (Inl ex, w') \<Rightarrow> (Inl ex, w')
            | (Inr r, w') \<Rightarrow> (Inr \<lparr>type = ''summary'', result = r\<rparr>, w'))
         \<and> (\<forall>r. fst (process_query e a w) = Inr r \<longrightarrow> type r = ''summary'')"
proof -
  from assms have "str_contains ''summary'' (lower (user_query a))"
    unfolding str_contains_iff by blast
  then have "any_keyword_in [''summarize'', ''key points'', ''summary'', ''main ideas'']
               (lower (user_query a))"
    by (simp add: any_keyword_in_def)
  then show ?thesis
    by (auto simp: process_query_def Let_def split: prod.splits sum.splits)
qed

theorem summary_keyword_wins_witness:
  "lower ''Search the SUMMARY and verify'' = ''search the '' @ ''summary'' @ '' and verify''
   \<and> fst (process_query (demo_env net_ok) (demo_agent ''t'' ''Search the SUMMARY and verify'')
            world0)
       = Inr \<lparr>type = ''summary'', result = ''The video is about cats.''\<rparr>"
proof -
  let ?a = "demo_agent ''t'' ''Search the SUMMARY and verify''"
  have lw: "lower ''Search the SUMMARY and verify'' = ''search the summary and verify''"
    by code_simp
  have h: "lower (user_query ?a) = ''search the '' @ ''summary'' @ '' and verify''"
    by (simp add: demo_agent_def lw)
  have s: "summarize_video (demo_env net_ok) ?a world0
             = (Inr ''The video is about cats.'',
                world0\<lparr>sent := [groq_request (demo_env net_ok) (summarize_prompt ?a)
                  ''llama3-8b-8192'']\<rparr>)"
    by (simp add: summarize_video_def query_groq_def requests_post_def demo_env_def net_ok_def
        world0_def)
  from summary_keyword_wins [OF h, of "demo_env net_ok" world0] s
  have "fst (process_query (demo_env net_ok) ?a world0)
          = Inr \<lparr>type = ''summary'', result = ''The video is about cats.''\<rparr>"
    by simp
  moreover have "lower ''Search the SUMMARY and verify''
      = ''search the '' @ ''summary'' @ '' and verify''"
    using lw by simp
  ultimately show ?thesis by simp
qed

text \<open>
  C3. When the lower-cased query holds a Summary keyword, \<open>process_query\<close> returns what
  \<open>query_groq\<close> returns for the prompt that joins the transcript and the query, under the
  type \<open>summary\<close>. It sends exactly one request, the chat request to the completion service
  whose user message is that prompt; when the service answers this request with status 200
  and a readable content \<open>txt\<close>, the result is \<open>txt\<close>. The instance is the query
  \<^verbatim>\<open>Please summarize this\<close>, put to a service whose answer is made from the user message it
  receives.
\<close>

theorem summary_result_is_completion:
  assumes "any_keyword_in [''summarize'', ''key points'', ''summary'', ''main ideas'']
             (lower (user_query a))"
  shows "(let prompt = ''Here is the transcript of a video:'' @ [CHR 0x0A, CHR 0x0A]
                 @ transcript a @ [CHR 0x0A, CHR 0x0A]
                 @ ''Now respond to the following request:'' @ [CHR 0x0A] @ user_query a;
              req = \<lparr>url = ''https://api.groq.com/openai/v1/chat/completions'',
                     headers = [(''Authorization'', ''Bearer '' @ str_opt (GROQ_API_KEY e)),
                                (''Content-Type'', ''application/json'')],
                     payload_model = ''llama3-8b-8192'',
                     payload_messages =
                       [\<lparr>role = ''system'',
                         content = ''You are a helpful assistant for summarizing video content.''\<rparr>,
                        \<lparr>role = ''user'', content = prompt\<rparr>],
                     payload_temperature = ''0.5''\<rparr>
          in process_query e a w =
               (case query_groq e prompt ''llama3-8b-8192'' w of
                  (Inl ex, w') \<Rightarrow> (Inl ex, w')
                | (Inr r, w') \<Rightarrow> (Inr \<lparr>type = ''summary'', result = r\<rparr>, w'))
             \<and> snd (process_query e a w) = w\<lparr>sent := sent w @ [req]\<rparr>
             \<and> (\<forall>resp txt.
                    network e (length (sent w)) req = Inr resp
                    \<and> status_code resp = 200 \<and> json_content resp = Inr txt
                  \<longrightarrow> process_query e a w =
                        (Inr \<lparr>type = ''summary'', result = txt\<rparr>,
                         w\<lparr>sent := sent w @ [req]\<rparr>)))"
  using assms
  by (auto simp: process_query_def summarize_video_def summarize_prompt_def query_groq_def
      requests_post_def groq_request_def Let_def split: sum.splits)

theorem summary_result_is_completion_witness:
  "any_keyword_in [''summarize'', ''key points'', ''summary'', ''main ideas'']
     (lower ''Please summarize this'')
   \<and> fst (process_query (demo_env net_echo) (demo_agent ''hello there'' ''Please summarize this'')
            world0)
       = Inr \<lparr>type = ''summary'',
               result = ''Reply to: Here is the transcript of a video:'' @ [CHR 0x0A, CHR 0x0A]
                 @ ''hello there'' @ [CHR 0x0A, CHR 0x0A]
                 @ ''Now respond to the following request:'' @ [CHR 0x0A]
                 @ ''Please summarize this''\<rparr>
   \<and> map (\<lambda>r. map content (payload_messages r))
         (sent (snd (process_query (demo_env net_echo)
            (demo_agent ''hello there'' ''Please summarize this'') world0)))
       = [[''You are a helpful assistant for summarizing video content.'',
           ''Here is the transcript of a video:'' @ [CHR 0x0A, CHR 0x0A]
                 @ ''hello there'' @ [CHR 0x0A, CHR 0x0A]
                 @ ''Now respond to the following request:'' @ [CHR 0x0A]
                 @ ''Please summarize this'']]"
proof -
  let ?a = "demo_agent ''hello there'' ''Please summarize this''"
  have k: "any_keyword_in [''summarize'', ''key points'', ''summary'', ''main ideas'']
             (lower ''Please summarize this'')"
    by code_simp
  then have h: "any_keyword_in [''summarize'', ''key points'', ''summary'', ''main ideas'']
             (lower (user_query ?a))"
    by (simp add: demo_agent_def)
  from summary_result_is_completion [OF h, of "demo_env net_echo" world0] k
  show ?thesis
    by (simp add: Let_def demo_env_def demo_agent_def world0_def net_echo_def str_opt_def
        query_groq_def requests_post_def groq_request_def)
qed

text \<open>
  C4. For every transcript (and every path, surroundings and state), the query
  \<^verbatim>\<open>can you search for more info\<close> is answered with type \<open>web_search\<close> and the search
  address followed by the query as typed; \<open>web_search\<close> appends any query unchanged.
\<close>

theorem search_example:
  "process_query e \<lparr>video_path = p, user_query = ''can you search for more info'',
                     transcript = t\<rparr> w
     = (Inr \<lparr>type = ''web_search'',
              result = ''https://www.duckduckgo.com/?q=can you search for more info''\<rparr>, w)
   \<and> web_search q = ''https://www.duckduckgo.com/?q='' @ q"
proof -
  have lw: "lower ''can you search for more info'' = ''can you search for more info''"
    by code_simp
  show ?thesis
    by (simp add: eval_defs lw)
qed

text \<open>
  C5. For every transcript, the query \<^verbatim>\<open>please fact-check this claim\<close> is answered with type
  \<open>fact_check\<close> and the search address followed by the query as typed.
\<close>

theorem fact_check_example:
  "process_query e \<lparr>video_path = p, user_query = ''please fact-check this claim'',
                     transcript = t\<rparr> w
     = (Inr \<lparr>type = ''fact_check'',
              result = ''https://www.duckduckgo.com/?q=please fact-check this claim''\<rparr>, w)"
proof -
  have lw: "lower ''please fact-check this claim'' = ''please fact-check this claim''"
    by code_simp
  show ?thesis
    by (simp add: eval_defs lw)
qed

text \<open>
  C6. When no keyword of the three sets occurs in the query, up to the case of letters,
  \<open>process_query\<close> returns type \<open>unknown\<close> with the fixed apology and leaves the state as it
  was. The instance is the query \<^verbatim>\<open>what is the weather\<close>.
\<close>

theorem no_keyword_unknown:
  assumes "\<not> matches_spec Summary (user_query a)"
    and "\<not> matches_spec WebSearch (user_query a)"
    and "\<not> matches_spec FactCheck (user_query a)"
  shows "process_query e a w
     = (Inr \<lparr>type = ''unknown'', result = ''Sorry, I couldn'' @ [CHR 0x27]
              @ ''t understand the query.''\<rparr>, w)"
  using assms by (simp add: process_query_def matches_spec_code Let_def)

theorem no_keyword_unknown_witness:
  "\<not> matches_spec Summary ''what is the weather''
   \<and> \<not> matches_spec WebSearch ''what is the weather''
   \<and> \<not> matches_spec FactCheck ''what is the weather''
   \<and> process_query (demo_env net_ok) (demo_agent ''hello there'' ''what is the weather'') world0
     = (Inr \<lparr>type = ''unknown'', result = ''Sorry, I couldn'' @ [CHR 0x27]
              @ ''t understand the query.''\<rparr>, world0)"
proof -
  let ?a = "demo_agent ''hello there'' ''what is the weather''"
  have lw: "lower ''what is the weather'' = ''what is the weather''"
    by code_simp
  have m: "\<not> matches_spec Summary ''what is the weather''"
    "\<not> matches_spec WebSearch ''what is the weather''"
    "\<not> matches_spec FactCheck ''what is the weather''"
    by (simp_all add: matches_spec_code lw any_keyword_in_def)
  have q: "user_query ?a = ''what is the weather''"
    by (simp add: demo_agent_def)
  from no_keyword_unknown [of ?a "demo_env net_ok" world0] m
  show ?thesis unfolding q by simp
qed

section \<open>Failures of the completion service\<close>

text \<open>
  C7. When the completion service answers the request of the Summary branch with a status
  other than 200, the result is \<^verbatim>\<open>Groq API Error: \<close> followed by the status in decimal,
  \<^verbatim>\<open> - \<close> and the body text as received, and exactly one request has been sent: there is no
  second attempt. In the instance the service would answer a second request with status 200.
\<close>

theorem completion_error_embedded:
  assumes "any_keyword_in [''summarize'', ''key points'', ''summary'', ''main ideas'']
             (lower (user_query a))"
    and "network e (length (sent w))
           (groq_request e (summarize_prompt a) ''llama3-8b-8192'') = Inr resp"
    and "status_code resp \<noteq> 200"
  shows "process_query e a w =
           (Inr \<lparr>type = ''summary'',
                 result = ''Groq API Error: '' @ str_int (status_code resp) @ '' - ''
                            @ body_text resp\<rparr>,
            w\<lparr>sent := sent w @ [groq_request e (summarize_prompt a) ''llama3-8b-8192'']\<rparr>)"
  using assms
  by (simp add: process_query_def summarize_video_def query_groq_def requests_post_def Let_def)

theorem completion_error_embedded_witness:
  "process_query (demo_env net_429_then_ok) (demo_agent ''hello there'' ''Main Ideas?'') world0 =
     (Inr \<lparr>type = ''summary'', result = ''Groq API Error: 429 - rate limit exceeded''\<rparr>,
      world0\<lparr>sent := [groq_request (demo_env net_429_then_ok)
         (summarize_prompt (demo_agent ''hello there'' ''Main Ideas?'')) ''llama3-8b-8192'']\<rparr>)
   \<and> network (demo_env net_429_then_ok) 1
        (groq_request (demo_env net_429_then_ok)
           (summarize_prompt (demo_agent ''hello there'' ''Main Ideas?'')) ''llama3-8b-8192'')
       = Inr \<lparr>status_code = 200, body_text = ''{}'',
               json_content = Inr ''The video is about cats.''\<rparr>"
proof -
  let ?e = "demo_env net_429_then_ok"
  let ?a = "demo_agent ''hello there'' ''Main Ideas?''"
  let ?resp = "\<lparr>status_code = 429, body_text = ''rate limit exceeded'',
                json_content = Inl (Exception ''choices'')\<rparr>"
  have k: "any_keyword_in [''summarize'', ''key points'', ''summary'', ''main ideas'']
             (lower ''Main Ideas?'')"
    by code_simp
  then have h: "any_keyword_in [''summarize'', ''key points'', ''summary'', ''main ideas'']
             (lower (user_query ?a))"
    by (simp add: demo_agent_def)
  have n: "network ?e (length (sent world0))
             (groq_request ?e (summarize_prompt ?a) ''llama3-8b-8192'') = Inr ?resp"
    by (simp add: demo_env_def net_429_then_ok_def world0_def)
  have s: "status_code ?resp \<noteq> 200"
    by simp
  have d: "str_int 429 = ''429''"
    by code_simp
  from completion_error_embedded [OF h n s] d
  show ?thesis
    by (simp add: demo_env_def net_429_then_ok_def net_ok_def world0_def)
qed

text \<open>
  C8. \<open>web_search\<close> and \<open>fact_checking\<close> are the same function of the query, and so are the
  two methods of the agent that call them.
\<close>

theorem handlers_equal:
  "web_search q = fact_checking q \<and> search_web a = fact_check a"
  by (simp add: web_search_def fact_checking_def search_web_def fact_check_def)

section \<open>The request boundary\<close>

lemma file_operations_sent:
  "sent (snd (NamedTemporaryFile e w)) = sent w"
  "sent (snd (temp_write e name data w)) = sent w"
  "sent (snd (unlink e name w)) = sent w"
  by (simp_all add: NamedTemporaryFile_def temp_write_def unlink_def
      split: sum.splits option.splits prod.splits)

lemma analyze_video_try_sent:
  "length (sent (snd (analyze_video_try e video q w))) \<le> length (sent w) + 1"
proof -
  obtain r0 w0 where n: "NamedTemporaryFile e w = (r0, w0)"
    by (cases "NamedTemporaryFile e w")
  have s0: "sent w0 = sent w"
    using file_operations_sent(1) [of e w] n by simp
  show ?thesis
  proof (cases r0)
    case (Inl ex)
    with n s0 show ?thesis by (simp add: analyze_video_try_def)
  next
    case p: (Inr temp_path)
    obtain r1 w1 where t: "temp_write e temp_path video w0 = (r1, w1)"
      by (cases "temp_write e temp_path video w0")
    have s1: "sent w1 = sent w"
      using file_operations_sent(2) [of e temp_path video w0] t s0 by simp
    show ?thesis
    proof (cases r1)
      case (Inl ex)
      with n p t s1 show ?thesis by (simp add: analyze_video_try_def)
    next
      case u: (Inr u)
      show ?thesis
      proof (cases "VideoAgent_init e temp_path q w1")
        case (Inl ex)
        with n p t u s1 show ?thesis by (simp add: analyze_video_try_def)
      next
        case a: (Inr agent)
        obtain r2 w2 where pq: "process_query e agent w1 = (r2, w2)"
          by (cases "process_query e agent w1")
        have s2: "length (sent w2) \<le> length (sent w) + 1"
          using process_query_sent [of e agent w1] pq s1 by auto
        show ?thesis
        proof (cases r2)
          case (Inl ex)
          with n p t u a pq s2 show ?thesis by (simp add: analyze_video_try_def)
        next
          case r: (Inr r)
          obtain r3 w3 where ul: "unlink e temp_path w2 = (r3, w3)"
            by (cases "unlink e temp_path w2")
          have s3: "sent w3 = sent w2"
            using file_operations_sent(3) [of e temp_path w2] ul by simp
          from n p t u a pq r ul s2 s3 show ?thesis
            by (cases r3) (simp_all add: analyze_video_try_def)
        qed
      qed
    qed
  qed
qed

lemma analyze_video_caught:
  "fst (analyze_video_try e video q w) = Inl ex \<Longrightarrow>
     fst (analyze_video e video q w) = \<lparr>status = 500, body = ErrorBody (message ex)\<rparr>"
  by (cases "analyze_video_try e video q w") (simp add: analyze_video_def)

lemma analyze_video_500:
  "status (fst (analyze_video e video q w)) = 500
     \<longleftrightarrow> (\<exists>ex. fst (analyze_video_try e video q w) = Inl ex)"
  by (cases "analyze_video_try e video q w")
     (auto simp: analyze_video_def split: sum.splits)

lemma analyze_video_sent:
  "length (sent (snd (analyze_video e video q w))) \<le> length (sent w) + 1"
  using analyze_video_try_sent [of e video q w]
  by (cases "analyze_video_try e video q w")
     (auto simp: analyze_video_def split: sum.splits)

text \<open>
  C9, as stated, fails: a completion service that reports status 429 is a failure of that
  collaborator, yet \<open>analyze_video\<close> answers with status 200 and an analysis, not with the
  error envelope and status 500.
\<close>

theorem nonsuccess_status_is_not_an_error_envelope:
  "network (demo_env net_429_then_ok) 0
     (groq_request (demo_env net_429_then_ok)
        (summarize_prompt \<lparr>video_path = ''/tmp/tmpq0x1.mp4'', user_query = ''give me a summary'',
                            transcript = ''heard: video bytes''\<rparr>) ''llama3-8b-8192'')
     = Inr \<lparr>status_code = 429, body_text = ''rate limit exceeded'',
             json_content = Inl (Exception ''choices'')\<rparr>
   \<and> fst (analyze_video (demo_env net_429_then_ok) ''video bytes'' ''give me a summary'' world0)
     = \<lparr>status = 200,
        body = AnalysisBody \<lparr>type = ''summary'',
                              result = ''Groq API Error: 429 - rate limit exceeded''\<rparr>\<rparr>
   \<and> status (fst (analyze_video (demo_env net_429_then_ok) ''video bytes''
                    ''give me a summary'' world0)) \<noteq> 500"
proof -
  have lw: "lower ''give me a summary'' = ''give me a summary''"
    by code_simp
  have d: "str_int 429 = ''429''"
    by code_simp
  have "fst (analyze_video (demo_env net_429_then_ok) ''video bytes'' ''give me a summary'' world0)
     = \<lparr>status = 200,
        body = AnalysisBody \<lparr>type = ''summary'',
                              result = ''Groq API Error: 429 - rate limit exceeded''\<rparr>\<rparr>"
    by (simp add: analyze_video_def analyze_video_try_def NamedTemporaryFile_def temp_write_def
        unlink_def VideoAgent_init_def transcribe_audio_def eval_defs demo_defs lw d)
  then show ?thesis
    by (simp add: demo_env_def net_429_then_ok_def)
qed

text \<open>
  C9, amended. Let the temporary file be created and written without an exception. An
  exception raised by a collaborator is then caught by the endpoint and returned as the
  envelope \<open>ErrorBody (message ex)\<close> with status 500: an exception of the transcriber (in both
  endpoints), an exception of the HTTP request, and an exception while reading the content of
  a 200 answer. A status other than 200 is not raised: when the temporary file is removed
  without an exception, the endpoint answers 200 with a \<open>summary\<close> analysis whose result
  embeds the status and the body. Whatever the file operations do, every exception raised
  inside the \<^verbatim>\<open>try\<close> block gives the envelope with its message, status 500 is returned only
  then, and at most one request is sent, so nothing is retried.
\<close>

theorem exceptions_caught_at_boundary:
  assumes "mkstemp e (files w) = Inr tmp"
    and "write_fault e ((files w)(tmp \<mapsto> [])) tmp video = None"
  shows
  "(let w1 = w\<lparr>files := (files w)(tmp \<mapsto> video)\<rparr>;
        heard = whisper_transcribe e (files w1) tmp;
        req = (\<lambda>t. groq_request e
                 (summarize_prompt \<lparr>video_path = tmp, user_query = q, transcript = t\<rparr>)
                 ''llama3-8b-8192'');
        summary = any_keyword_in [''summarize'', ''key points'', ''summary'', ''main ideas'']
                    (lower q);
        error = (\<lambda>ex. \<lparr>status = 500, body = ErrorBody (message ex)\<rparr>)
    in (\<forall>ex. heard = Inl ex \<longrightarrow>
          analyze_video e video q w = (error ex, w1)
          \<and> transcribe_video e video w = (error ex, w1))
     \<and> (\<forall>t ex. heard = Inr t \<and> summary
            \<and> network e (length (sent w)) (req t) = Inl ex \<longrightarrow>
          analyze_video e video q w = (error ex, w1\<lparr>sent := sent w @ [req t]\<rparr>))
     \<and> (\<forall>t resp ex. heard = Inr t \<and> summary
            \<and> network e (length (sent w)) (req t) = Inr resp
            \<and> status_code resp = 200 \<and> json_content resp = Inl ex \<longrightarrow>
          analyze_video e video q w = (error ex, w1\<lparr>sent := sent w @ [req t]\<rparr>))
     \<and> (\<forall>t resp. heard = Inr t \<and> summary
            \<and> network e (length (sent w)) (req t) = Inr resp
            \<and> status_code resp \<noteq> 200
            \<and> unlink_fault e (files w1) tmp = None \<longrightarrow>
          analyze_video e video q w =
            (\<lparr>status = 200,
              body = AnalysisBody
                \<lparr>type = ''summary'',
                 result = ''Groq API Error: '' @ str_int (status_code resp) @ '' - ''
                            @ body_text resp\<rparr>\<rparr>,
             w\<lparr>sent := sent w @ [req t], files := (files w)(tmp := None)\<rparr>))
     \<and> (\<forall>ex. fst (analyze_video_try e video q w) = Inl ex \<longrightarrow>
          fst (analyze_video e video q w) = error ex)
     \<and> (status (fst (analyze_video e video q w)) = 500 \<longleftrightarrow>
          (\<exists>ex. fst (analyze_video_try e video q w) = Inl ex))
     \<and> length (sent (snd (analyze_video e video q w))) \<le> length (sent w) + 1)"
proof -
  note file_ops = NamedTemporaryFile_def temp_write_def unlink_def assms
  note run = analyze_video_def analyze_video_try_def VideoAgent_init_def transcribe_audio_def
    process_query_def summarize_video_def query_groq_def requests_post_def Let_def
  show ?thesis
    unfolding Let_def
    apply (intro conjI allI impI)
    subgoal by (simp add: analyze_video_def analyze_video_try_def VideoAgent_init_def
        transcribe_audio_def file_ops)
    subgoal by (simp add: transcribe_video_def transcribe_video_try_def transcribe_audio_def
        file_ops)
    subgoal by (simp add: run file_ops)
    subgoal by (simp add: run file_ops)
    subgoal by (simp add: run file_ops)
    subgoal by (rule analyze_video_caught)
    subgoal by (rule analyze_video_500)
    subgoal by (rule analyze_video_sent)
    done
qed

theorem exceptions_caught_at_boundary_witness:
  "fst (analyze_video (demo_env net_down) ''video bytes'' ''key points please'' world0)
     = \<lparr>status = 500, body = ErrorBody ''Connection refused''\<rparr>
   \<and> sent (snd (analyze_video (demo_env net_down) ''video bytes'' ''key points please'' world0))
     = [groq_request (demo_env net_down)
          (summarize_prompt \<lparr>video_path = ''/tmp/tmpq0x1.mp4'', user_query = ''key points please'',
                              transcript = ''heard: video bytes''\<rparr>) ''llama3-8b-8192'']
   \<and> analyze_video (demo_env net_ok) [] ''key points please'' world0
     = (\<lparr>status = 500, body = ErrorBody ''Failed to load audio''\<rparr>,
        world0\<lparr>files := [''/tmp/tmpq0x1.mp4'' \<mapsto> []]\<rparr>)"
proof -
  have lw: "lower ''key points please'' = ''key points please''"
    by code_simp
  have c: "mkstemp (demo_env n) (files world0) = Inr ''/tmp/tmpq0x1.mp4''" for n
    by (simp add: demo_env_def)
  have wr: "write_fault (demo_env n) ((files world0)(''/tmp/tmpq0x1.mp4'' \<mapsto> []))
              ''/tmp/tmpq0x1.mp4'' v = None" for n v
    by (simp add: demo_env_def)
  have a: "fst (analyze_video (demo_env net_down) ''video bytes'' ''key points please'' world0)
     = \<lparr>status = 500, body = ErrorBody ''Connection refused''\<rparr>
   \<and> sent (snd (analyze_video (demo_env net_down) ''video bytes'' ''key points please'' world0))
     = [groq_request (demo_env net_down)
          (summarize_prompt \<lparr>video_path = ''/tmp/tmpq0x1.mp4'', user_query = ''key points please'',
                              transcript = ''heard: video bytes''\<rparr>) ''llama3-8b-8192'']"
    using exceptions_caught_at_boundary
      [OF c [of net_down] wr [of net_down "''video bytes''"], where q = "''key points please''"]
    by (simp add: Let_def lw any_keyword_in_def demo_env_def demo_whisper_def net_down_def
        world0_def)
  have b: "analyze_video (demo_env net_ok) [] ''key points please'' world0
     = (\<lparr>status = 500, body = ErrorBody ''Failed to load audio''\<rparr>,
        world0\<lparr>files := [''/tmp/tmpq0x1.mp4'' \<mapsto> []]\<rparr>)"
    using exceptions_caught_at_boundary
      [OF c [of net_ok] wr [of net_ok "[]"], where q = "''key points please''"]
    by (simp add: Let_def demo_env_def demo_whisper_def world0_def)
  from a b show ?thesis by simp
qed

section \<open>The transcript and the choice of intent\<close>

text \<open>
  C10. Two agents with the same query, whatever their transcripts (and paths, surroundings
  and states), take the same branch: either both return the same analysis of a type other
  than \<open>summary\<close>, with the same result string and the state untouched, or both take the
  Summary branch, where every analysis returned has type \<open>summary\<close>.
\<close>

theorem intent_independent_of_transcript:
  assumes "user_query a1 = user_query a2"
  shows "(\<exists>r. type r \<noteq> ''summary''
            \<and> process_query e1 a1 w1 = (Inr r, w1) \<and> process_query e2 a2 w2 = (Inr r, w2))
       \<or> (process_query e1 a1 w1 =
             (case summarize_video e1 a1 w1 of
                (Inl ex, w') \<Rightarrow> (Inl ex, w')
              | (Inr r, w') \<Rightarrow> (Inr \<lparr>type = ''summary'', result = r\<rparr>, w'))
          \<and> process_query e2 a2 w2 =
             (case summarize_video e2 a2 w2 of
                (Inl ex, w') \<Rightarrow> (Inl ex, w')
              | (Inr r, w') \<Rightarrow> (Inr \<lparr>type = ''summary'', result = r\<rparr>, w'))
          \<and> (\<forall>r1 r2. fst (process_query e1 a1 w1) = Inr r1
                \<and> fst (process_query e2 a2 w2) = Inr r2
                \<longrightarrow> type r1 = ''summary'' \<and> type r2 = ''summary''))"
  using assms
  by (auto simp: process_query_def Let_def search_web_def fact_check_def
      split: prod.splits sum.splits)

theorem intent_independent_of_transcript_witness:
  "user_query (demo_agent ''first transcript'' ''Look up the check'')
     = user_query (demo_agent ''another one'' ''Look up the check'')
   \<and> process_query (demo_env net_ok) (demo_agent ''first transcript'' ''Look up the check'') world0
     = (Inr \<lparr>type = ''web_search'',
              result = ''https://www.duckduckgo.com/?q=Look up the check''\<rparr>, world0)
   \<and> process_query (demo_env net_down) (demo_agent ''another one'' ''Look up the check'') world0
     = (Inr \<lparr>type = ''web_search'',
              result = ''https://www.duckduckgo.com/?q=Look up the check''\<rparr>, world0)"
proof -
  let ?a1 = "demo_agent ''first transcript'' ''Look up the check''"
  let ?a2 = "demo_agent ''another one'' ''Look up the check''"
  have lw: "lower ''Look up the check'' = ''look up the check''"
    by code_simp
  have h: "user_query ?a1 = user_query ?a2"
    by (simp add: demo_agent_def)
  have ev: "process_query (demo_env net_ok) ?a1 world0
     = (Inr \<lparr>type = ''web_search'',
              result = ''https://www.duckduckgo.com/?q=Look up the check''\<rparr>, world0)"
    by (simp add: eval_defs demo_agent_def lw)
  from intent_independent_of_transcript [OF h, of "demo_env net_ok" world0 "demo_env net_down" world0]
  have "process_query (demo_env net_down) ?a2 world0
     = (Inr \<lparr>type = ''web_search'',
              result = ''https://www.duckduckgo.com/?q=Look up the check''\<rparr>, world0)"
    unfolding ev by (auto split: prod.splits sum.splits)
  with h ev show ?thesis by simp
qed

end
